theory Spec2Isabelle
  imports Complex_Main
begin

section \<open>The reimbursement formula of \<open>calculate_reimbursement.py\<close>\<close>

text \<open>
  The program is a function of three numbers: the trip's days (a Python \<open>int\<close>), the
  miles travelled and the receipt total (Python \<open>float\<close>s). Python's unbounded \<open>int\<close>
  is \<open>int\<close>. A finite \<open>float\<close> is modelled by the real number it stands for; infinities
  and NaN are left out. Two things that float arithmetic does and real arithmetic does
  not are part of the model:
  \<^item> an \<open>int\<close> that meets a \<open>float\<close> in \<open>/\<close> or \<open>+\<close> is converted to \<open>float\<close> first,
    and the conversion raises \<open>OverflowError\<close> for an integer beyond the double range;
  \<^item> the float value of \<open>total\<close> differs from the real value of its formula by a
    rounding error. The model takes this error as the argument \<open>err\<close> of
    \<open>calculate_reimbursement\<close>; it decides the cent where the real total lies
    halfway between two cents.
  The tags of the classifier are Python strings and stay strings here.
\<close>

subsection \<open>Exceptions and the conversions to numbers\<close>

text \<open>
  The exceptions that the conversions, the division and the validation can raise. The
  handler of \<open>calculate_reimbursement\<close> names the first two only.
\<close>

datatype py_exn = ValueError | TypeError | OverflowError | ZeroDivisionError

text \<open>
  The conversion of an \<open>int\<close> to \<open>float\<close>, explicit in \<open>float(n)\<close> and implicit in
  mixed arithmetic: it raises \<open>OverflowError\<close> when the integer rounds beyond the largest
  double, that is from \<open>2^1024 - 2^970\<close> on.
\<close>

definition float_overflow_bound :: int where
  "float_overflow_bound = 2 ^ 1024 - 2 ^ 970"

definition int_to_float :: "int \<Rightarrow> py_exn + real" where
  "int_to_float n =
     (if \<bar>n\<bar> \<ge> float_overflow_bound then Inl OverflowError else Inr (of_int n))"

text \<open>\<open>x / n\<close> for a float \<open>x\<close> and an int \<open>n\<close>.\<close>

definition float_div_int :: "real \<Rightarrow> int \<Rightarrow> py_exn + real" where
  "float_div_int x n =
     (case int_to_float n of
        Inl e \<Rightarrow> Inl e
      | Inr d \<Rightarrow> if d = 0 then Inl ZeroDivisionError else Inr (x / d))"

text \<open>
  Arguments a caller passes as numbers, or \<open>None\<close>. \<open>int(x)\<close> truncates a float
  towards zero; both builtins raise \<open>TypeError\<close> on \<open>None\<close>. A string argument is
  parsed by the runtime and gives a number or \<open>ValueError\<close>;
  \<open>calculate_reimbursement\<close> below takes the outcome of each coercion, so it covers
  strings as well.
\<close>

datatype pyval = PyInt int | PyFloat real | PyNone

fun py_int :: "pyval \<Rightarrow> py_exn + int" where
  "py_int (PyInt n) = Inr n"
| "py_int (PyFloat x) = Inr (if 0 \<le> x then \<lfloor>x\<rfloor> else \<lceil>x\<rceil>)"
| "py_int PyNone = Inl TypeError"

fun py_float :: "pyval \<Rightarrow> py_exn + real" where
  "py_float (PyInt n) = int_to_float n"
| "py_float (PyFloat x) = Inr x"
| "py_float PyNone = Inl TypeError"

subsection \<open>Rounding to two decimals\<close>

text \<open>
  \<open>round(x, 2)\<close>: the nearest multiple of \<open>0.01\<close>, an exact tie going to the even
  one.
\<close>

definition round_half_even :: "real \<Rightarrow> int" where
  "round_half_even x =
     (let f = \<lfloor>x\<rfloor>; d = x - of_int f
      in if d < 1 / 2 then f
         else if d > 1 / 2 then f + 1
         else if even f then f else f + 1)"

definition py_round2 :: "real \<Rightarrow> real" where
  "py_round2 x = of_int (round_half_even (x * 100)) / 100"

subsection \<open>The classifier\<close>

text \<open>
  \<open>detect_outlier_case\<close> first computes two per-day ratios, which it never reads; for
  positive days each divides a float by the int \<open>days\<close>. Then three rules are tried in
  source order, and the first that matches returns.
\<close>

definition detect_outlier_case :: "int \<Rightarrow> real \<Rightarrow> real \<Rightarrow> py_exn + string" where
  "detect_outlier_case days miles receipts =
     (case (if days > 0 then float_div_int receipts days else Inr 0) of
        Inl e \<Rightarrow> Inl e
      | Inr receipts_per_day \<Rightarrow>
          (case (if days > 0 then float_div_int miles days else Inr 0) of
             Inl e \<Rightarrow> Inl e
           | Inr miles_per_day \<Rightarrow>
               Inr (if receipts > 2000 \<and> days \<le> 4 \<and> miles \<le> 100 then ''gaming_detection''
                    else if receipts > 2300 \<and> days \<le> 5 \<and> miles \<le> 100 then ''heavy_cap''
                    else if days = 1 \<and> miles > 1000 \<and> receipts > 1800
                      then ''abuse_detection''
                    else ''normal'')))"

subsection \<open>The banded receipt component\<close>

definition calculate_receipt_component :: "real \<Rightarrow> real" where
  "calculate_receipt_component total_receipts_amount =
     (if total_receipts_amount > 1000
        then 1000 * 0.998 + (total_receipts_amount - 1000) * 0.3
      else if total_receipts_amount > 500
        then 500 * 1.610 + (total_receipts_amount - 500) * 0.998
      else if total_receipts_amount > 200
        then 200 * 2.258 + (total_receipts_amount - 200) * 1.610
      else if total_receipts_amount > 50
        then 50 * 3.610 + (total_receipts_amount - 50) * 2.258
      else total_receipts_amount * 3.610)"

subsection \<open>The outlier calculator\<close>

text \<open>
  \<open>calculate_outlier_reimbursement\<close> compares the tag with four string literals in
  this order and has a fallback for every other string. \<open>outlier_branch\<close> names the
  branch that the same chain of comparisons takes. The dispatcher calls the calculator
  with 1 to 5 days only (lemma \<open>outlier_tag_days\<close>), where the conversion of
  \<open>days * 45\<close> and the like to float cannot overflow, so the calculator is a total
  function here.
\<close>

definition calculate_outlier_reimbursement :: "int \<Rightarrow> real \<Rightarrow> real \<Rightarrow> string \<Rightarrow> real" where
  "calculate_outlier_reimbursement days miles receipts outlier_type =
     (if outlier_type = ''heavy_cap''
        then (of_int days * 45 + miles * 0.4) + receipts * 0.15
      else if outlier_type = ''abuse_detection''
        then (of_int days * 40 + miles * 0.35) + receipts * 0.12
      else if outlier_type = ''spending_cap''
        then (of_int days * 50 + miles * 0.45) + min receipts (of_int days * 250) * 0.2
      else if outlier_type = ''gaming_detection''
        then (of_int days * 35 + miles * 0.3) + receipts * 0.08
      else of_int days * 50 + miles * 0.5 + receipts * 0.1)"

datatype branch = HeavyCap | AbuseDetection | SpendingCap | GamingDetection | Fallback

definition outlier_branch :: "string \<Rightarrow> branch" where
  "outlier_branch outlier_type =
     (if outlier_type = ''heavy_cap'' then HeavyCap
      else if outlier_type = ''abuse_detection'' then AbuseDetection
      else if outlier_type = ''spending_cap'' then SpendingCap
      else if outlier_type = ''gaming_detection'' then GamingDetection
      else Fallback)"

subsection \<open>The dispatcher\<close>

text \<open>
  \<open>reimbursement_total\<close> is the real value of the formula that the program assigns to
  \<open>total\<close>: the outlier formula for a tag other than \<open>normal\<close>, else one of three
  formulas chosen by the receipt level. In each of the three the leading terms are
  Python ints (\<open>100 + days * 20\<close>, \<open>50 + days * 35\<close>, \<open>days * 50\<close>); their sum is
  converted when the float \<open>mileage_component\<close> is added.
\<close>

definition reimbursement_total :: "int \<Rightarrow> real \<Rightarrow> real \<Rightarrow> py_exn + real" where
  "reimbursement_total days miles receipts =
     (case detect_outlier_case days miles receipts of
        Inl e \<Rightarrow> Inl e
      | Inr outlier_type \<Rightarrow>
          if outlier_type \<noteq> ''normal''
            then Inr (calculate_outlier_reimbursement days miles receipts outlier_type)
          else if receipts > 800
            then (case int_to_float (100 + days * 20) of
                    Inl e \<Rightarrow> Inl e
                  | Inr b \<Rightarrow> Inr (b + miles * 0.3 + calculate_receipt_component receipts))
          else if receipts > 200
            then (case int_to_float (50 + days * 35) of
                    Inl e \<Rightarrow> Inl e
                  | Inr b \<Rightarrow> Inr (b + miles * 0.4 + receipts * 0.8))
          else (case int_to_float (days * 50) of
                  Inl e \<Rightarrow> Inl e
                | Inr b \<Rightarrow> Inr (b + miles * 0.5 + receipts * 0.1)))"

text \<open>
  The body of the \<open>try\<close>: the three coercions in order, each of which may raise, the
  validation, which raises \<open>ValueError\<close>, and \<open>round(total, 2)\<close>. The arguments are the
  outcomes of \<open>int(trip_duration_days)\<close>, \<open>float(miles_traveled)\<close> and
  \<open>float(total_receipts_amount)\<close>; the float \<open>total\<close> is the real total plus \<open>err\<close>.
\<close>

definition try_body ::
    "real \<Rightarrow> py_exn + int \<Rightarrow> py_exn + real \<Rightarrow> py_exn + real \<Rightarrow> py_exn + real" where
  "try_body err trip_duration_days miles_traveled total_receipts_amount =
     (case trip_duration_days of
        Inl e \<Rightarrow> Inl e
      | Inr days \<Rightarrow>
          (case miles_traveled of
             Inl e \<Rightarrow> Inl e
           | Inr miles \<Rightarrow>
               (case total_receipts_amount of
                  Inl e \<Rightarrow> Inl e
                | Inr receipts \<Rightarrow>
                    if days \<le> 0 \<or> miles < 0 \<or> receipts < 0 then Inl ValueError
                    else (case reimbursement_total days miles receipts of
                            Inl e \<Rightarrow> Inl e
                          | Inr tot \<Rightarrow> Inr (py_round2 (tot + err))))))"

text \<open>
  \<open>except (ValueError, TypeError)\<close> prints the error and returns \<open>0.0\<close>; any other
  exception leaves the function. The printed line is not part of the model.
\<close>

definition calculate_reimbursement ::
    "real \<Rightarrow> py_exn + int \<Rightarrow> py_exn + real \<Rightarrow> py_exn + real \<Rightarrow> py_exn + real" where
  "calculate_reimbursement err trip_duration_days miles_traveled total_receipts_amount =
     (case try_body err trip_duration_days miles_traveled total_receipts_amount of
        Inl e \<Rightarrow> if e = ValueError \<or> e = TypeError then Inr 0 else Inl e
      | Inr amount \<Rightarrow> Inr amount)"

section \<open>Properties\<close>

subsection \<open>Helper facts: conversions and the classifier\<close>

lemma float_overflow_bound_large: "1000000 < float_overflow_bound"
  by (simp add: float_overflow_bound_def)

lemma int_to_float_nonneg:
  "0 \<le> n \<Longrightarrow>
   int_to_float n = (if float_overflow_bound \<le> n then Inl OverflowError else Inr (of_int n))"
  by (simp add: int_to_float_def)

lemma detect_outlier_case_eq:
  "detect_outlier_case days miles receipts =
     (if float_overflow_bound \<le> days then Inl OverflowError
      else Inr (if receipts > 2000 \<and> days \<le> 4 \<and> miles \<le> 100 then ''gaming_detection''
                else if receipts > 2300 \<and> days \<le> 5 \<and> miles \<le> 100 then ''heavy_cap''
                else if days = 1 \<and> miles > 1000 \<and> receipts > 1800 then ''abuse_detection''
                else ''normal''))"
proof (cases "0 < days")
  case True
  then show ?thesis
    by (simp add: detect_outlier_case_def float_div_int_def int_to_float_nonneg)
next
  case False
  then have "\<not> float_overflow_bound \<le> days"
    using float_overflow_bound_large by linarith
  with False show ?thesis
    by (simp add: detect_outlier_case_def)
qed

lemma outlier_tag_days:
  "detect_outlier_case days miles receipts = Inr outlier_type \<Longrightarrow>
   outlier_type \<noteq> ''normal'' \<Longrightarrow> days \<le> 5"
  by (auto simp add: detect_outlier_case_eq split: if_splits)

lemma outlier_tag_branch:
  "detect_outlier_case days miles receipts = Inr outlier_type \<Longrightarrow>
   outlier_type \<noteq> ''normal'' \<Longrightarrow>
   outlier_branch outlier_type \<in> {GamingDetection, HeavyCap, AbuseDetection}"
  by (auto simp add: detect_outlier_case_eq outlier_branch_def split: if_splits)

lemma calculate_outlier_reimbursement_by_branch:
  "calculate_outlier_reimbursement days miles receipts outlier_type =
     (case outlier_branch outlier_type of
        HeavyCap \<Rightarrow> of_int days * 45 + miles * 0.4 + receipts * 0.15
      | AbuseDetection \<Rightarrow> of_int days * 40 + miles * 0.35 + receipts * 0.12
      | SpendingCap \<Rightarrow> of_int days * 50 + miles * 0.45 + min receipts (of_int days * 250) * 0.2
      | GamingDetection \<Rightarrow> of_int days * 35 + miles * 0.3 + receipts * 0.08
      | Fallback \<Rightarrow> of_int days * 50 + miles * 0.5 + receipts * 0.1)"
  by (simp add: calculate_outlier_reimbursement_def outlier_branch_def)



subsection \<open>Helper facts: the dispatcher\<close>

lemma reimbursement_total_outlier:
  "detect_outlier_case days miles receipts = Inr outlier_type \<Longrightarrow>
   outlier_type \<noteq> ''normal'' \<Longrightarrow>
   reimbursement_total days miles receipts =
     Inr (calculate_outlier_reimbursement days miles receipts outlier_type)"
  by (simp add: reimbursement_total_def)




lemma calculate_reimbursement_valid:
  "0 < days \<Longrightarrow> 0 \<le> miles \<Longrightarrow> 0 \<le> receipts \<Longrightarrow>
   reimbursement_total days miles receipts = Inr tot \<Longrightarrow>
   calculate_reimbursement err (Inr days) (Inr miles) (Inr receipts) =
     Inr (py_round2 (tot + err))"
  by (simp add: calculate_reimbursement_def try_body_def)


subsection \<open>Helper facts: rounding\<close>

lemma round_half_even_near: "\<bar>of_int (round_half_even y) - y\<bar> \<le> 1 / 2"
proof -
  have "of_int \<lfloor>y\<rfloor> \<le> y" "y < of_int \<lfloor>y\<rfloor> + 1" by linarith+
  then show ?thesis
    by (auto simp add: round_half_even_def Let_def)
qed



lemma py_round2_of_near:
  assumes "\<bar>x - of_int k / 100\<bar> < 1 / 200"
  shows "py_round2 x = of_int k / 100"
proof -
  let ?j = "round_half_even (x * 100)"
  have "\<bar>of_int ?j - x * 100\<bar> \<le> 1 / 2" by (rule round_half_even_near)
  moreover have "\<bar>x * 100 - of_int k\<bar> < 1 / 2" using assms by (simp add: field_simps)
  ultimately have "\<bar>(of_int ?j :: real) - of_int k\<bar> < 1" by linarith
  then have "\<bar>?j - k\<bar> < 1" by linarith
  then have "?j = k" by linarith
  then show ?thesis by (simp add: py_round2_def)
qed


text \<open>
  When the real total plus the rounding error is within half a cent of a whole number of
  cents, that number is the result.
\<close>

lemma calculate_reimbursement_cents:
  assumes "0 < days" "0 \<le> miles" "0 \<le> receipts"
    and "reimbursement_total days miles receipts = Inr tot"
    and "\<bar>tot + err - of_int k / 100\<bar> < 1 / 200"
  shows "calculate_reimbursement err (Inr days) (Inr miles) (Inr receipts) =
           Inr (of_int k / 100)"
  using calculate_reimbursement_valid [OF assms(1-4), of err] py_round2_of_near [OF assms(5)]
  by simp

lemma total_4_69_2321: "reimbursement_total 4 69 2321 = Inr (of_int 34638 / 100)"
  by (simp add: reimbursement_total_def detect_outlier_case_eq float_overflow_bound_def
      calculate_outlier_reimbursement_def)




lemma total_5_200_1000: "reimbursement_total 5 200 1000 = Inr (of_int 156400 / 100)"
  by (simp add: reimbursement_total_def detect_outlier_case_eq float_overflow_bound_def
      int_to_float_def calculate_receipt_component_def)

lemma total_5_200_1001: "reimbursement_total 5 200 1001 = Inr (of_int 125830 / 100)"
  by (simp add: reimbursement_total_def detect_outlier_case_eq float_overflow_bound_def
      int_to_float_def calculate_receipt_component_def)

lemma total_3_150_500: "reimbursement_total 3 150 500 = Inr (of_int 61500 / 100)"
  by (simp add: reimbursement_total_def detect_outlier_case_eq float_overflow_bound_def
      int_to_float_def)

subsection \<open>Helper facts: one-sided limits\<close>

text \<open>
  One-sided limits of a function that agrees with a continuous one just above \<open>b\<close>.
\<close>

lemma right_limit_of_branch:
  fixes f g :: "real \<Rightarrow> real"
  assumes eq: "\<And>x. b < x \<Longrightarrow> x < c \<Longrightarrow> f x = g x"
    and bc: "b < c"
    and cont: "isCont g b"
  shows "(f \<longlongrightarrow> g b) (at_right b)"
proof -
  have "(g \<longlongrightarrow> g b) (at b)"
    using cont by (simp add: isCont_def)
  then have g: "(g \<longlongrightarrow> g b) (at_right b)"
    by (simp add: filterlim_at_split)
  have "eventually (\<lambda>x. f x = g x) (at_right b)"
    by (rule eventually_at_rightI [of b c]) (simp_all add: eq bc)
  then show ?thesis
    using g by (simp add: tendsto_cong)
qed

lemma receipt_right_limit_50:
  "(calculate_receipt_component \<longlongrightarrow> 50 * 3.610) (at_right 50)"
  using right_limit_of_branch [of 50 200 calculate_receipt_component
      "\<lambda>x. 50 * 3.610 + (x - 50) * 2.258"]
  by (simp add: calculate_receipt_component_def)

lemma receipt_right_limit_200:
  "(calculate_receipt_component \<longlongrightarrow> 200 * 2.258) (at_right 200)"
  using right_limit_of_branch [of 200 500 calculate_receipt_component
      "\<lambda>x. 200 * 2.258 + (x - 200) * 1.610"]
  by (simp add: calculate_receipt_component_def)

lemma receipt_right_limit_500:
  "(calculate_receipt_component \<longlongrightarrow> 500 * 1.610) (at_right 500)"
  using right_limit_of_branch [of 500 1000 calculate_receipt_component
      "\<lambda>x. 500 * 1.610 + (x - 500) * 0.998"]
  by (simp add: calculate_receipt_component_def)

lemma receipt_right_limit_1000:
  "(calculate_receipt_component \<longlongrightarrow> 1000 * 0.998) (at_right 1000)"
  using right_limit_of_branch [of 1000 2000 calculate_receipt_component
      "\<lambda>x. 1000 * 0.998 + (x - 1000) * 0.3"]
  by (simp add: calculate_receipt_component_def)

lemma right_limit_differs:
  fixes f :: "real \<Rightarrow> real"
  assumes "(f \<longlongrightarrow> l) (at_right b)" and "l \<noteq> v"
  shows "\<not> (f \<longlongrightarrow> v) (at_right b)"
  using assms tendsto_unique [of "at_right b" f l v] by auto

lemma receipt_values:
  "calculate_receipt_component 50 = 180.50"
  "calculate_receipt_component 200 = 519.20"
  "calculate_receipt_component 500 = 934.60"
  "calculate_receipt_component 1000 = 1304"
  by (simp_all add: calculate_receipt_component_def)

subsection \<open>The classifier\<close>

text \<open>
  Claim C1. The spec's scenario: days 4, miles 69, receipts 2321 is tagged \<open>heavy_cap\<close>
  and reimbursed \<open>4*45 + 69*0.4 + 2321*0.15 = 555.75\<close>. The comment above the second
  rule of the classifier names this very trip (case 152) as the one the rule is written
  for. The code does not get there: the first rule matches the trip (receipts above
  2000, at most 4 days, at most 100 miles) and returns \<open>gaming_detection\<close>, and the
  function returns \<open>4*35 + 69*0.3 + 2321*0.08 = 346.38\<close>, whatever the rounding error
  of the float total (up to a tenth of a cent). The theorem evaluates the code at the
  scenario; its last conjunct is the amount the \<open>heavy_cap\<close> formula would have given.
\<close>

theorem C1_case_152_code_path:
  "\<bar>err\<bar> \<le> 1 / 1000 \<Longrightarrow>
   detect_outlier_case 4 69 2321 = Inr ''gaming_detection'' \<and>
   calculate_reimbursement err (py_int (PyInt 4)) (py_float (PyInt 69))
     (py_float (PyInt 2321)) = Inr 346.38 \<and>
   calculate_outlier_reimbursement 4 69 2321 ''heavy_cap'' = 555.75"
proof -
  assume err: "\<bar>err\<bar> \<le> 1 / 1000"
  have tag: "detect_outlier_case 4 69 2321 = Inr ''gaming_detection''"
    by (simp add: detect_outlier_case_eq float_overflow_bound_def)
  have "calculate_reimbursement err (Inr 4) (Inr 69) (Inr 2321) = Inr (of_int 34638 / 100)"
    by (rule calculate_reimbursement_cents [OF _ _ _ total_4_69_2321]) (use err in simp_all)
  then have res: "calculate_reimbursement err (Inr 4) (Inr 69) (Inr 2321) = Inr 346.38"
    by simp
  have co: "py_int (PyInt 4) = Inr 4" "py_float (PyInt 69) = Inr 69"
    "py_float (PyInt 2321) = Inr 2321"
    by (simp_all add: int_to_float_def float_overflow_bound_def)
  have hc: "calculate_outlier_reimbursement 4 69 2321 ''heavy_cap'' = 555.75"
    by (simp add: calculate_outlier_reimbursement_def)
  show ?thesis
    by (simp only: co res tag hc)
qed

theorem C1_case_152_code_path_witness:
  "\<bar>0 :: real\<bar> \<le> 1 / 1000 \<and>
   detect_outlier_case 4 69 2321 = Inr ''gaming_detection'' \<and>
   calculate_reimbursement 0 (py_int (PyInt 4)) (py_float (PyInt 69))
     (py_float (PyInt 2321)) = Inr 346.38 \<and>
   calculate_outlier_reimbursement 4 69 2321 ''heavy_cap'' = 555.75"
  using C1_case_152_code_path [of 0] by simp

text \<open>
  Claim C3. Rule precedence: whenever the \<open>gaming_detection\<close> rule and the
  \<open>heavy_cap\<close> rule both match, the classifier returns \<open>gaming_detection\<close>, the
  rule that is tried first. The witness is the spec's trip of 3 days, 50 miles and
  receipts of 2350.
\<close>

theorem C3_gaming_detection_first:
  "receipts > 2000 \<and> days \<le> 4 \<and> miles \<le> 100 \<Longrightarrow>
   receipts > 2300 \<and> days \<le> 5 \<and> miles \<le> 100 \<Longrightarrow>
   detect_outlier_case days miles receipts = Inr ''gaming_detection''"
  using float_overflow_bound_large by (simp add: detect_outlier_case_eq)

theorem C3_gaming_detection_first_witness:
  "(2350::real) > 2000 \<and> (3::int) \<le> 4 \<and> (50::real) \<le> 100 \<and>
   (2350::real) > 2300 \<and> (3::int) \<le> 5 \<and>
   detect_outlier_case 3 50 2350 = Inr ''gaming_detection'' \<and>
   detect_outlier_case 3 50 2350 \<noteq> Inr ''heavy_cap''"
  using C3_gaming_detection_first [of 2350 3 50] by simp

text \<open>
  Claim C9. For a valid trip (days positive, miles and receipts not negative) the
  classifier returns \<open>heavy_cap\<close> exactly when the trip has 5 days, receipts above 2300
  and at most 100 miles: every shorter trip that meets the \<open>heavy_cap\<close> condition
  has already been taken by the \<open>gaming_detection\<close> rule.
\<close>

theorem C9_heavy_cap_only_five_days:
  "days > 0 \<Longrightarrow> miles \<ge> 0 \<Longrightarrow> receipts \<ge> 0 \<Longrightarrow>
   (detect_outlier_case days miles receipts = Inr ''heavy_cap'') =
     (days = 5 \<and> receipts > 2300 \<and> miles \<le> 100)"
  using float_overflow_bound_large by (auto simp add: detect_outlier_case_eq)

theorem C9_heavy_cap_only_five_days_witness:
  "(5::int) > 0 \<and> (50::real) \<ge> 0 \<and> (2400::real) \<ge> 0 \<and>
   detect_outlier_case 5 50 2400 = Inr ''heavy_cap'' \<and>
   (4::int) > 0 \<and> (69::real) \<ge> 0 \<and> (2321::real) \<ge> 0 \<and>
   detect_outlier_case 4 69 2321 \<noteq> Inr ''heavy_cap''"
  using C9_heavy_cap_only_five_days [of 5 50 2400]
        C9_heavy_cap_only_five_days [of 4 69 2321] by simp

text \<open>
  Claim C8, as stated: for every input the classifier returns one of four tags. For
  days of \<open>10^400\<close> it returns nothing: the division \<open>receipts / days\<close> converts
  \<open>days\<close> to float and raises \<open>OverflowError\<close>.
\<close>

theorem C8_classifier_raises_at_huge_days:
  "detect_outlier_case (10 ^ 400) 0 0 = Inl OverflowError"
  by (simp add: detect_outlier_case_eq float_overflow_bound_def)

text \<open>
  Claim C8, amended. For days below \<open>2^1024 - 2^970\<close> the classifier returns one of
  four tags, \<open>normal\<close>, \<open>gaming_detection\<close>, \<open>heavy_cap\<close> and
  \<open>abuse_detection\<close>, each of which is returned for some trip; for days from that
  bound on it raises \<open>OverflowError\<close>. Whenever \<open>calculate_reimbursement\<close>, on a
  valid trip, gets a tag other than \<open>normal\<close> from the classifier, its total is what
  \<open>calculate_outlier_reimbursement\<close> returns for that tag, and the calculator is then
  in its \<open>gaming_detection\<close>, \<open>heavy_cap\<close> or \<open>abuse_detection\<close> branch: the
  \<open>spending_cap\<close> branch and the fallback are never entered from
  \<open>calculate_reimbursement\<close>. The last conjunct says that \<open>outlier_branch\<close> is the
  branch whose formula the calculator evaluates.
\<close>

theorem C8_classifier_range:
  "(days < float_overflow_bound \<longrightarrow>
      (\<exists>tag \<in> {''normal'', ''gaming_detection'', ''heavy_cap'', ''abuse_detection''}.
         detect_outlier_case days miles receipts = Inr tag)) \<and>
   (float_overflow_bound \<le> days \<longrightarrow>
      detect_outlier_case days miles receipts = Inl OverflowError) \<and>
   detect_outlier_case 1 0 0 = Inr ''normal'' \<and>
   detect_outlier_case 3 50 2350 = Inr ''gaming_detection'' \<and>
   detect_outlier_case 5 50 2400 = Inr ''heavy_cap'' \<and>
   detect_outlier_case 1 1082 1809 = Inr ''abuse_detection'' \<and>
   (0 < days \<and> 0 \<le> miles \<and> 0 \<le> receipts \<and>
    detect_outlier_case days miles receipts = Inr outlier_type \<and>
    outlier_type \<noteq> ''normal'' \<longrightarrow>
      outlier_branch outlier_type \<in> {GamingDetection, HeavyCap, AbuseDetection} \<and>
      reimbursement_total days miles receipts =
        Inr (calculate_outlier_reimbursement days miles receipts outlier_type) \<and>
      calculate_reimbursement err (Inr days) (Inr miles) (Inr receipts) =
        Inr (py_round2
          (calculate_outlier_reimbursement days miles receipts outlier_type + err))) \<and>
   calculate_outlier_reimbursement days miles receipts outlier_type =
     (case outlier_branch outlier_type of
        HeavyCap \<Rightarrow> of_int days * 45 + miles * 0.4 + receipts * 0.15
      | AbuseDetection \<Rightarrow> of_int days * 40 + miles * 0.35 + receipts * 0.12
      | SpendingCap \<Rightarrow> of_int days * 50 + miles * 0.45 + min receipts (of_int days * 250) * 0.2
      | GamingDetection \<Rightarrow> of_int days * 35 + miles * 0.3 + receipts * 0.08
      | Fallback \<Rightarrow> of_int days * 50 + miles * 0.5 + receipts * 0.1)"
proof -
  have range: "days < float_overflow_bound \<longrightarrow>
      (\<exists>tag \<in> {''normal'', ''gaming_detection'', ''heavy_cap'', ''abuse_detection''}.
         detect_outlier_case days miles receipts = Inr tag)"
    by (simp add: detect_outlier_case_eq)
  have huge: "float_overflow_bound \<le> days \<longrightarrow>
      detect_outlier_case days miles receipts = Inl OverflowError"
    by (simp add: detect_outlier_case_eq)
  have ex: "detect_outlier_case 1 0 0 = Inr ''normal''"
    "detect_outlier_case 3 50 2350 = Inr ''gaming_detection''"
    "detect_outlier_case 5 50 2400 = Inr ''heavy_cap''"
    "detect_outlier_case 1 1082 1809 = Inr ''abuse_detection''"
    by (simp_all add: detect_outlier_case_eq float_overflow_bound_def)
  have call: "0 < days \<and> 0 \<le> miles \<and> 0 \<le> receipts \<and>
    detect_outlier_case days miles receipts = Inr outlier_type \<and>
    outlier_type \<noteq> ''normal'' \<longrightarrow>
      outlier_branch outlier_type \<in> {GamingDetection, HeavyCap, AbuseDetection} \<and>
      reimbursement_total days miles receipts =
        Inr (calculate_outlier_reimbursement days miles receipts outlier_type) \<and>
      calculate_reimbursement err (Inr days) (Inr miles) (Inr receipts) =
        Inr (py_round2
          (calculate_outlier_reimbursement days miles receipts outlier_type + err))"
  proof (intro impI, elim conjE)
    assume v: "0 < days" "0 \<le> miles" "0 \<le> receipts"
      and tag: "detect_outlier_case days miles receipts = Inr outlier_type"
      and nn: "outlier_type \<noteq> ''normal''"
    have t: "reimbursement_total days miles receipts =
        Inr (calculate_outlier_reimbursement days miles receipts outlier_type)"
      using tag nn by (rule reimbursement_total_outlier)
    show "outlier_branch outlier_type \<in> {GamingDetection, HeavyCap, AbuseDetection} \<and>
      reimbursement_total days miles receipts =
        Inr (calculate_outlier_reimbursement days miles receipts outlier_type) \<and>
      calculate_reimbursement err (Inr days) (Inr miles) (Inr receipts) =
        Inr (py_round2
          (calculate_outlier_reimbursement days miles receipts outlier_type + err))"
      using outlier_tag_branch [OF tag nn] t calculate_reimbursement_valid [OF v t, of err]
      by blast
  qed
  show ?thesis
    using range huge ex call
      calculate_outlier_reimbursement_by_branch [of days miles receipts outlier_type]
    by blast
qed

theorem C8_classifier_range_witness:
  "(5::int) < float_overflow_bound \<and>
   (0::int) < 5 \<and> (0::real) \<le> 50 \<and> (0::real) \<le> 2400 \<and>
   detect_outlier_case 5 50 2400 = Inr ''heavy_cap'' \<and> ''heavy_cap'' \<noteq> ''normal'' \<and>
   outlier_branch ''heavy_cap'' = HeavyCap \<and>
   reimbursement_total 5 50 2400 =
     Inr (calculate_outlier_reimbursement 5 50 2400 ''heavy_cap'') \<and>
   calculate_reimbursement 0 (Inr 5) (Inr 50) (Inr 2400) =
     Inr (py_round2 (calculate_outlier_reimbursement 5 50 2400 ''heavy_cap'' + 0))"
  using C8_classifier_range [of 5 50 2400 "''heavy_cap''" 0]
  by (simp add: outlier_branch_def float_overflow_bound_def)

subsection \<open>The outlier calculator\<close>


subsection \<open>The banded receipt component\<close>

text \<open>
  Claim C2, as stated: at each boundary \<open>b\<close> of 50, 200, 500 and 1000 the value of
  \<open>calculate_receipt_component\<close> approached from the band above \<open>b\<close> equals its
  value at \<open>b\<close>. This fails at 200, 500 and 1000: the limit from the right is not
  the value at the boundary.
\<close>

theorem C2_discontinuous_at_200_500_1000:
  "\<not> (calculate_receipt_component \<longlongrightarrow> calculate_receipt_component 200) (at_right 200) \<and>
   \<not> (calculate_receipt_component \<longlongrightarrow> calculate_receipt_component 500) (at_right 500) \<and>
   \<not> (calculate_receipt_component \<longlongrightarrow> calculate_receipt_component 1000) (at_right 1000)"
proof (intro conjI)
  show "\<not> (calculate_receipt_component \<longlongrightarrow> calculate_receipt_component 200) (at_right 200)"
    by (rule right_limit_differs [OF receipt_right_limit_200]) (simp add: receipt_values)
  show "\<not> (calculate_receipt_component \<longlongrightarrow> calculate_receipt_component 500) (at_right 500)"
    by (rule right_limit_differs [OF receipt_right_limit_500]) (simp add: receipt_values)
  show "\<not> (calculate_receipt_component \<longlongrightarrow> calculate_receipt_component 1000) (at_right 1000)"
    by (rule right_limit_differs [OF receipt_right_limit_1000]) (simp add: receipt_values)
qed

text \<open>
  Claim C2, amended. The component is continuous from above at the boundary 50 only,
  where both branch formulas give \<open>50 * 3.610 = 180.50\<close>. At 200, 500 and 1000 the base
  term of the upper tier is the boundary times that tier's own ratio (451.60, 805.00,
  998.00); this is the limit from above, and it is below the value at the boundary, which
  the lower tier's formula gives (519.20, 934.60, 1304.00).
\<close>

theorem C2_continuous_at_50_only:
  "(calculate_receipt_component \<longlongrightarrow> calculate_receipt_component 50) (at_right 50) \<and>
   calculate_receipt_component 50 = 50 * 3.610 \<and>
   (calculate_receipt_component \<longlongrightarrow> 200 * 2.258) (at_right 200) \<and>
   calculate_receipt_component 200 = 50 * 3.610 + 150 * 2.258 \<and>
   (200 * 2.258 :: real) < 50 * 3.610 + 150 * 2.258 \<and>
   (calculate_receipt_component \<longlongrightarrow> 500 * 1.610) (at_right 500) \<and>
   calculate_receipt_component 500 = 200 * 2.258 + 300 * 1.610 \<and>
   (500 * 1.610 :: real) < 200 * 2.258 + 300 * 1.610 \<and>
   (calculate_receipt_component \<longlongrightarrow> 1000 * 0.998) (at_right 1000) \<and>
   calculate_receipt_component 1000 = 500 * 1.610 + 500 * 0.998 \<and>
   (1000 * 0.998 :: real) < 500 * 1.610 + 500 * 0.998"
proof -
  have v50: "calculate_receipt_component 50 = 50 * 3.610"
    by (simp add: calculate_receipt_component_def)
  have l50: "(calculate_receipt_component \<longlongrightarrow> calculate_receipt_component 50) (at_right 50)"
    by (simp only: v50 receipt_right_limit_50)
  have v200: "calculate_receipt_component 200 = 50 * 3.610 + 150 * 2.258"
    by (simp add: calculate_receipt_component_def)
  have v500: "calculate_receipt_component 500 = 200 * 2.258 + 300 * 1.610"
    by (simp add: calculate_receipt_component_def)
  have v1000: "calculate_receipt_component 1000 = 500 * 1.610 + 500 * 0.998"
    by (simp add: calculate_receipt_component_def)
  have lt: "(200 * 2.258 :: real) < 50 * 3.610 + 150 * 2.258"
    "(500 * 1.610 :: real) < 200 * 2.258 + 300 * 1.610"
    "(1000 * 0.998 :: real) < 500 * 1.610 + 500 * 0.998"
    by simp_all
  show ?thesis
    using v50 l50 v200 v500 v1000 lt receipt_right_limit_200 receipt_right_limit_500
      receipt_right_limit_1000
    by blast
qed

text \<open>
  Claim C10. The receipt component is not monotone: it jumps down just above 200, 500
  and 1000 (519.20 at 200 and 453.21 at 201). The jump at 1000 reaches the result of
  \<open>calculate_reimbursement\<close>: two normal trips of 5 days and 200 miles with receipts
  above 800 get 1564.00 for receipts of 1000 and 1258.30 for receipts of 1001, whatever
  the rounding errors of the two float totals (up to a tenth of a cent each).
\<close>

theorem C10_receipt_component_not_monotone:
  "\<bar>err1\<bar> \<le> 1 / 1000 \<Longrightarrow> \<bar>err2\<bar> \<le> 1 / 1000 \<Longrightarrow>
   calculate_receipt_component 200 = 519.20 \<and>
   calculate_receipt_component 201 = 453.21 \<and>
   calculate_receipt_component 501 < calculate_receipt_component 500 \<and>
   calculate_receipt_component 1001 < calculate_receipt_component 1000 \<and>
   \<not> mono calculate_receipt_component \<and>
   detect_outlier_case 5 200 1000 = Inr ''normal'' \<and>
   detect_outlier_case 5 200 1001 = Inr ''normal'' \<and>
   calculate_reimbursement err1 (Inr 5) (Inr 200) (Inr 1000) = Inr 1564.00 \<and>
   calculate_reimbursement err2 (Inr 5) (Inr 200) (Inr 1001) = Inr 1258.30"
proof -
  assume e1: "\<bar>err1\<bar> \<le> 1 / 1000" and e2: "\<bar>err2\<bar> \<le> 1 / 1000"
  have a: "calculate_receipt_component 200 = 519.20"
    and b: "calculate_receipt_component 201 = 453.21"
    and c: "calculate_receipt_component 501 < calculate_receipt_component 500"
    and d: "calculate_receipt_component 1001 < calculate_receipt_component 1000"
    by (simp_all add: calculate_receipt_component_def)
  have m: "\<not> mono calculate_receipt_component"
  proof
    assume "mono calculate_receipt_component"
    then have "calculate_receipt_component 200 \<le> calculate_receipt_component 201"
      by (rule monoD) simp
    then show False by (simp add: a b)
  qed
  have n: "detect_outlier_case 5 200 1000 = Inr ''normal''"
    "detect_outlier_case 5 200 1001 = Inr ''normal''"
    by (simp_all add: detect_outlier_case_eq float_overflow_bound_def)
  have "calculate_reimbursement err1 (Inr 5) (Inr 200) (Inr 1000) = Inr (of_int 156400 / 100)"
    by (rule calculate_reimbursement_cents [OF _ _ _ total_5_200_1000]) (use e1 in simp_all)
  then have r1: "calculate_reimbursement err1 (Inr 5) (Inr 200) (Inr 1000) = Inr 1564.00"
    by simp
  have "calculate_reimbursement err2 (Inr 5) (Inr 200) (Inr 1001) = Inr (of_int 125830 / 100)"
    by (rule calculate_reimbursement_cents [OF _ _ _ total_5_200_1001]) (use e2 in simp_all)
  then have r2: "calculate_reimbursement err2 (Inr 5) (Inr 200) (Inr 1001) = Inr 1258.30"
    by simp
  show ?thesis
    using a b c d m n r1 r2 by blast
qed

theorem C10_receipt_component_not_monotone_witness:
  "\<bar>0 :: real\<bar> \<le> 1 / 1000 \<and>
   \<not> mono calculate_receipt_component \<and>
   detect_outlier_case 5 200 1000 = Inr ''normal'' \<and>
   detect_outlier_case 5 200 1001 = Inr ''normal'' \<and>
   calculate_reimbursement 0 (Inr 5) (Inr 200) (Inr 1000) = Inr 1564.00 \<and>
   calculate_reimbursement 0 (Inr 5) (Inr 200) (Inr 1001) = Inr 1258.30"
  using C10_receipt_component_not_monotone [of 0 0] by simp

subsection \<open>The dispatcher\<close>







text \<open>
  Claim C4, as stated: whenever a value fails numeric coercion the function returns
  \<open>0.0\<close> and no error leaves it. The handler names \<open>ValueError\<close> and \<open>TypeError\<close>
  only. \<open>float(10**400)\<close> raises \<open>OverflowError\<close>, so the call
  \<open>calculate_reimbursement(1, 10**400, 0)\<close> ends with that exception.
\<close>

theorem C4_overflow_propagates:
  "py_float (PyInt (10 ^ 400)) = Inl OverflowError \<and>
   calculate_reimbursement 0 (py_int (PyInt 1)) (py_float (PyInt (10 ^ 400)))
     (py_float (PyInt 0)) = Inl OverflowError"
  by (simp add: calculate_reimbursement_def try_body_def int_to_float_def
      float_overflow_bound_def)

text \<open>
  Claim C4, amended. When the first step of the \<open>try\<close> that fails raises
  \<open>ValueError\<close> or \<open>TypeError\<close>, the function returns exactly \<open>0.0\<close>: that is a
  coercion of days, of miles or of receipts raising one of the two (the coercions before
  it having succeeded), or, with all three coerced, days at most 0, miles negative or
  receipts negative. In particular days of 0 with any coerced miles and receipts gives
  \<open>0.0\<close>.
\<close>

theorem C4_invalid_input_gives_zero:
  "(e = ValueError \<or> e = TypeError \<longrightarrow>
      calculate_reimbursement err (Inl e) miles_traveled total_receipts_amount = Inr 0 \<and>
      calculate_reimbursement err (Inr days) (Inl e) total_receipts_amount = Inr 0 \<and>
      calculate_reimbursement err (Inr days) (Inr miles) (Inl e) = Inr 0) \<and>
   (days \<le> 0 \<or> miles < 0 \<or> receipts < 0 \<longrightarrow>
      calculate_reimbursement err (Inr days) (Inr miles) (Inr receipts) = Inr 0) \<and>
   calculate_reimbursement err (Inr 0) (Inr miles) (Inr receipts) = Inr 0"
  by (auto simp add: calculate_reimbursement_def try_body_def)

theorem C4_invalid_input_gives_zero_witness:
  "calculate_reimbursement 0 (py_int PyNone) (Inr 10) (Inr 20) = Inr 0 \<and>
   calculate_reimbursement 0 (Inr (-1)) (Inl ValueError) (Inr 20) = Inr 0 \<and>
   calculate_reimbursement 0 (Inr (-1)) (Inr 10) (Inl ValueError) = Inr 0 \<and>
   calculate_reimbursement 0 (Inr (-1)) (Inr 10) (Inr 20) = Inr 0 \<and>
   calculate_reimbursement 0 (Inr 0) (Inr 10) (Inr 20) = Inr 0"
  using C4_invalid_input_gives_zero [of TypeError 0 "Inr 10" "Inr 20" "-1" 10 20]
        C4_invalid_input_gives_zero [of ValueError 0 "Inr 10" "Inr 20" "-1" 10 20]
  by simp

end
